theory Spec2Isabelle
  imports Main
begin

section \<open>The attendance server (server.js) as a state-passing model\<close>

text \<open>
  The Express handlers of \<^verbatim>\<open>server.js\<close> are embedded as functions that take the
  contents of the MongoDB collections and return a response together with the new
  contents. A collection is the list of its documents in insertion order;
  \<^verbatim>\<open>findOne\<close> returns the first document that matches, together with its position,
  and \<^verbatim>\<open>save\<close> on a loaded document writes it back at that position (a Mongoose
  document keeps the identity of the stored document it was loaded from).

  What the handlers take from their libraries is a parameter of the model:
  \<^verbatim>\<open>Date\<close> parsing, \<^verbatim>\<open>jwt.verify\<close>/\<^verbatim>\<open>jwt.sign\<close>, \<^verbatim>\<open>bcrypt.compare\<close>/\<^verbatim>\<open>bcrypt.hash\<close>,
  the cast of a string to an \<^verbatim>\<open>ObjectId\<close>, and the server's offset from UTC. The
  local time zone is a fixed offset in milliseconds (daylight-saving changes are outside
  the model).
\<close>

subsection \<open>Dates\<close>

text \<open>
  A \<^verbatim>\<open>Date\<close> object holds a time value in milliseconds since the epoch, or NaN
  (an Invalid Date), which is \<open>None\<close> here.
\<close>

type_synonym jsdate = "int option"

definition msPerDay :: int where
  "msPerDay = 86400000"

definition localTime :: "int \<Rightarrow> int \<Rightarrow> int" where
  "localTime tz t = t + tz"

definition utcTime :: "int \<Rightarrow> int \<Rightarrow> int" where
  "utcTime tz t = t - tz"

text \<open>
  \<^verbatim>\<open>TimeClip\<close>: a time value more than 8.64e15 ms away from the epoch is no time
  value of a \<^verbatim>\<open>Date\<close>; the result is NaN.
\<close>

definition maxTime :: int where
  "maxTime = 8640000000000000"

definition timeClip :: "int \<Rightarrow> jsdate" where
  "timeClip v = (if \<bar>v\<bar> \<le> maxTime then Some v else None)"

definition makeTime :: "int \<Rightarrow> int \<Rightarrow> int \<Rightarrow> int \<Rightarrow> int" where
  "makeTime h m s ms = h * 3600000 + m * 60000 + s * 1000 + ms"

text \<open>
  \<^verbatim>\<open>date.setHours(h, m, s, ms)\<close>: the local day of the date is kept, the time within the
  day is replaced, and the result is clipped to the range of a \<^verbatim>\<open>Date\<close>; on an Invalid
  Date the result is NaN again.
\<close>

definition setHours :: "int \<Rightarrow> int \<Rightarrow> int \<Rightarrow> int \<Rightarrow> int \<Rightarrow> jsdate \<Rightarrow> jsdate" where
  "setHours tz h m s ms d =
     (case d of
        None \<Rightarrow> None
      | Some t \<Rightarrow>
          timeClip (utcTime tz ((localTime tz t div msPerDay) * msPerDay + makeTime h m s ms)))"

text \<open>
  \<^verbatim>\<open>req.query.date ? new Date(req.query.date) : new Date()\<close>. A missing parameter and the
  empty string are falsy and give the current time; any other string goes to the
  \<^verbatim>\<open>Date\<close> constructor, here \<open>parse\<close>, whose result is a time value of a
  \<^verbatim>\<open>Date\<close> or NaN.
\<close>

definition requestDate :: "(string \<Rightarrow> jsdate) \<Rightarrow> int \<Rightarrow> string option \<Rightarrow> jsdate" where
  "requestDate parse now d =
     (case d of
        None \<Rightarrow> Some now
      | Some s \<Rightarrow> if s = [] then Some now else parse s)"

text \<open>
  \<^verbatim>\<open>start = new Date(date.setHours(0, 0, 0, 0)); end = new Date(date.setHours(23, 59, 59, 999))\<close>.
  The first call moves \<^verbatim>\<open>date\<close> itself to local midnight, so the second one starts
  from there.
\<close>

definition dayWindow :: "int \<Rightarrow> jsdate \<Rightarrow> jsdate \<times> jsdate" where
  "dayWindow tz d =
     (let start = setHours tz 0 0 0 0 d;
          end = setHours tz 23 59 59 999 start
      in (start, end))"

text \<open>The calendar day, in server-local time, that a time value falls on.\<close>

definition localDay :: "int \<Rightarrow> int \<Rightarrow> int" where
  "localDay tz t = localTime tz t div msPerDay"

subsection \<open>Documents and collections\<close>

text \<open>
  An \<^verbatim>\<open>ObjectId\<close> is given by its \<^verbatim>\<open>toString()\<close>, the 24 hexadecimal digits in lower
  case. A request carries an id as a string, which Mongoose casts where a query filter or
  a document path needs an \<^verbatim>\<open>ObjectId\<close>; the cast refuses a string that spells none.
\<close>

type_synonym oid = string

record user_doc =
  username :: string
  passwordHash :: string

text \<open>
  \<open>sid\<close> is the \<^verbatim>\<open>_id\<close> of a student, the value that \<^verbatim>\<open>studentsPresent\<close> refers to. The
  \<^verbatim>\<open>_id\<close> of the other documents is never read by a handler and is left out.
\<close>

record student_doc =
  sid :: oid
  rollNo :: string
  name :: string
  photos :: "string list"

record lecture_doc =
  lectureName :: string
  roomNo :: string
  lectureSection :: string

text \<open>
  An attendance document holds references to students; after \<^verbatim>\<open>populate\<close> it holds the
  students themselves, hence the type parameter.
\<close>

record 'a attendance_doc =
  lecture :: oid
  date :: int
  studentsPresent :: "'a list"

record store =
  users :: "user_doc list"
  students :: "student_doc list"
  lectures :: "lecture_doc list"
  attendances :: "oid attendance_doc list"

definition emptyStore :: store where
  "emptyStore = \<lparr>users = [], students = [], lectures = [], attendances = []\<rparr>"

fun findOne :: "('a \<Rightarrow> bool) \<Rightarrow> 'a list \<Rightarrow> (nat \<times> 'a) option" where
  "findOne P [] = None"
| "findOne P (x # xs) =
     (if P x then Some (0, x)
      else (case findOne P xs of None \<Rightarrow> None | Some (i, y) \<Rightarrow> Some (Suc i, y)))"

text \<open>The filter \<^verbatim>\<open>{lecture: lectureId, date: {$gte: start, $lte: end}}\<close>.\<close>

definition inWindow :: "oid \<Rightarrow> int \<Rightarrow> int \<Rightarrow> 'a attendance_doc \<Rightarrow> bool" where
  "inWindow l s e r = (lecture r = l \<and> s \<le> date r \<and> date r \<le> e)"

text \<open>
  \<^verbatim>\<open>populate('studentsPresent')\<close>: every reference is replaced by the student with that
  \<^verbatim>\<open>_id\<close>; a reference that names no student is dropped from the array.
\<close>

definition populate :: "student_doc list \<Rightarrow> oid list \<Rightarrow> student_doc list" where
  "populate studs ids = List.map_filter (\<lambda>i. map_option snd (findOne (\<lambda>s. sid s = i) studs)) ids"

subsection \<open>Requests, responses and the environment\<close>

datatype jwt_result = JwtValid string | JwtMalformed | JwtInvalidSignature | JwtExpired

text \<open>What is fixed for the server process.\<close>

record server =
  tzOffset :: int
  parseDate :: "string \<Rightarrow> jsdate"
  castObjectId :: "string \<Rightarrow> oid option"
  jwtVerify :: "string \<Rightarrow> int \<Rightarrow> jwt_result"
  jwtSign :: "string \<Rightarrow> int \<Rightarrow> string"
  bcryptCompare :: "string \<Rightarrow> string \<Rightarrow> bool"
  bcryptHash :: "string \<Rightarrow> string \<Rightarrow> string"

text \<open>
  What a single request draws from outside: the clock, the salt \<^verbatim>\<open>bcrypt.hash\<close>
  generates, and the \<^verbatim>\<open>_id\<close> a new document is given.
\<close>

record ctx =
  now :: int
  salt :: string
  freshOid :: oid

datatype body =
    Token string
  | Message string
  | StudentRegistered student_doc
  | Students "student_doc list"
  | Lectures "lecture_doc list"
  | Attendance "student_doc attendance_doc"
  | AttendanceMarked "oid attendance_doc"

text \<open>
  \<open>Json c b\<close> is \<^verbatim>\<open>res.status(c).json(b)\<close> (\<^verbatim>\<open>res.json(b)\<close> has status 200),
  \<open>SendStatus c\<close> is \<^verbatim>\<open>res.sendStatus(c)\<close>. \<open>UploadError\<close> is the upload middleware
  refusing the request (multer passes \<^verbatim>\<open>LIMIT_UNEXPECTED_FILE\<close> to Express, the handler
  does not run). \<open>CastError\<close> is Mongoose refusing an Invalid Date or a string that
  is no \<^verbatim>\<open>ObjectId\<close>: the call throws and the handler, which has no \<^verbatim>\<open>catch\<close>, ends
  without a record in the answer and without a write.
\<close>

datatype response =
    Json nat body
  | SendStatus nat
  | UploadError
  | CastError

datatype request =
    Login string string
  | ChangePassword string string
  | RegisterStudent "string option" "string option" "string list"
  | ListStudents
  | ListLectures
  | GetAttendance string "string option"
  | MarkAttendance "string option" "string option" "string option"

subsection \<open>The access gate: authenticateToken\<close>

text \<open>
  \<^verbatim>\<open>str.split(' ')\<close>: the pieces between single spaces, empty pieces included; the
  result is never empty.
\<close>

fun split :: "char \<Rightarrow> string \<Rightarrow> string list" where
  "split c [] = [[]]"
| "split c (x # xs) =
     (if x = c then [] # split c xs
      else (case split c xs of [] \<Rightarrow> [[x]] | y # ys \<Rightarrow> (x # y) # ys))"

text \<open>
  \<^verbatim>\<open>authHeader && authHeader.split(' ')[1]\<close>, then \<^verbatim>\<open>!token\<close>: the token is the second
  piece of the header; a missing header, a header of one piece and an empty second piece
  all count as no token.
\<close>

definition bearerToken :: "string option \<Rightarrow> string option" where
  "bearerToken authHeader =
     (case authHeader of
        None \<Rightarrow> None
      | Some h \<Rightarrow>
          (case split CHR '' '' h of
             _ # t # _ \<Rightarrow> if t = [] then None else Some t
           | _ \<Rightarrow> None))"

text \<open>
  The result is either the response the middleware sends itself, or the user that
  \<^verbatim>\<open>next()\<close> is called with (\<^verbatim>\<open>req.user\<close>; the token payload holds only the user name).
\<close>

definition authenticateToken :: "server \<Rightarrow> ctx \<Rightarrow> string option \<Rightarrow> response + string" where
  "authenticateToken srv c authHeader =
     (case bearerToken authHeader of
        None \<Rightarrow> Inl (SendStatus 401)
      | Some token \<Rightarrow>
          (case jwtVerify srv token (now c) of
             JwtValid user \<Rightarrow> Inr user
           | _ \<Rightarrow> Inl (SendStatus 403)))"

subsection \<open>The handlers\<close>

definition login :: "server \<Rightarrow> ctx \<Rightarrow> store \<Rightarrow> string \<Rightarrow> string \<Rightarrow> response \<times> store" where
  "login srv c st uname password =
     (case findOne (\<lambda>u. username u = uname) (users st) of
        None \<Rightarrow> (Json 400 (Message ''Invalid username or password''), st)
      | Some (i, u) \<Rightarrow>
          if \<not> bcryptCompare srv password (passwordHash u)
          then (Json 400 (Message ''Invalid username or password''), st)
          else (Json 200 (Token (jwtSign srv (username u) (now c))), st))"

definition changePassword ::
  "server \<Rightarrow> ctx \<Rightarrow> store \<Rightarrow> string \<Rightarrow> string \<Rightarrow> string \<Rightarrow> response \<times> store" where
  "changePassword srv c st uname currentPassword newPassword =
     (case findOne (\<lambda>u. username u = uname) (users st) of
        None \<Rightarrow> (Json 404 (Message ''User not found''), st)
      | Some (i, u) \<Rightarrow>
          if \<not> bcryptCompare srv currentPassword (passwordHash u)
          then (Json 400 (Message ''Current password incorrect''), st)
          else (Json 200 (Message ''Password changed successfully''),
                st\<lparr>users := (users st)[i := u\<lparr>passwordHash := bcryptHash srv (salt c) newPassword\<rparr>]\<rparr>))"

text \<open>\<^verbatim>\<open>!rollNo\<close>: a missing field and the empty string are falsy.\<close>

definition falsy :: "string option \<Rightarrow> bool" where
  "falsy x = (case x of None \<Rightarrow> True | Some s \<Rightarrow> s = [])"

text \<open>
  \<^verbatim>\<open>upload.array('photos', 2)\<close> runs before the handler: a third file in the field makes
  multer fail the request. \<open>files\<close> are the names the storage gave to the uploaded
  files of the field \<^verbatim>\<open>photos\<close>. Past the first check of the handler both fields are
  present, which is where \<open>the\<close> reads them.
\<close>

definition registerStudent ::
  "ctx \<Rightarrow> store \<Rightarrow> string option \<Rightarrow> string option \<Rightarrow> string list \<Rightarrow> response \<times> store" where
  "registerStudent c st rollNoField nameField files =
     (if length files > 2 then (UploadError, st)
      else if falsy rollNoField \<or> falsy nameField
      then (Json 400 (Message ''Roll No and Name are required''), st)
      else if length files \<noteq> 2 then (Json 400 (Message ''Two photos required''), st)
      else
        (let paths = map (\<lambda>f. ''/uploads/students/'' @ f) files in
         case findOne (\<lambda>s. rollNo s = the rollNoField) (students st) of
           Some existingStudent \<Rightarrow>
             (Json 400 (Message ''Student with this roll no already exists''), st)
         | None \<Rightarrow>
             (let student = \<lparr>sid = freshOid c, rollNo = the rollNoField,
                             name = the nameField, photos = paths\<rparr>
              in (Json 200 (StudentRegistered student), st\<lparr>students := students st @ [student]\<rparr>))))"

definition listStudents :: "store \<Rightarrow> response \<times> store" where
  "listStudents st = (Json 200 (Students (students st)), st)"

definition seedLectures :: "lecture_doc list" where
  "seedLectures =
     [\<lparr>lectureName = ''Discrete Mathematics'', roomNo = ''CS2005'', lectureSection = ''2FA''\<rparr>,
      \<lparr>lectureName = ''Computer Organisation'', roomNo = ''BSCS100'', lectureSection = ''2AA''\<rparr>,
      \<lparr>lectureName = ''DBMS'', roomNo = ''BCO1005'', lectureSection = ''2CA''\<rparr>,
      \<lparr>lectureName = ''English'', roomNo = ''BELH 0081'', lectureSection = ''2XX''\<rparr>,
      \<lparr>lectureName = ''HTML'', roomNo = ''PCPH0001'', lectureSection = ''2XN''\<rparr>]"

definition listLectures :: "store \<Rightarrow> response \<times> store" where
  "listLectures st =
     (if length (lectures st) = 0
      then (Json 200 (Lectures seedLectures), st\<lparr>lectures := lectures st @ seedLectures\<rparr>)
      else (Json 200 (Lectures (lectures st)), st))"

definition requestWindow :: "server \<Rightarrow> ctx \<Rightarrow> string option \<Rightarrow> jsdate \<times> jsdate" where
  "requestWindow srv c d = dayWindow (tzOffset srv) (requestDate (parseDate srv) (now c) d)"

text \<open>
  \<^verbatim>\<open>GET /api/attendance/:lectureId\<close>. The filter of \<^verbatim>\<open>findOne\<close> casts \<^verbatim>\<open>lectureId\<close> and the
  two bounds; the synthetic record carries the path parameter as it came.
\<close>

definition getAttendance ::
  "server \<Rightarrow> ctx \<Rightarrow> store \<Rightarrow> string \<Rightarrow> string option \<Rightarrow> response \<times> store" where
  "getAttendance srv c st lectureId d =
     (case requestWindow srv c d of
        (Some start, Some end) \<Rightarrow>
          (case castObjectId srv lectureId of
             None \<Rightarrow> (CastError, st)
           | Some l \<Rightarrow>
               (case findOne (inWindow l start end) (attendances st) of
                  Some (i, a) \<Rightarrow>
                    (Json 200 (Attendance \<lparr>lecture = lecture a, date = date a,
                         studentsPresent = populate (students st) (studentsPresent a)\<rparr>), st)
                | None \<Rightarrow>
                    (Json 200 (Attendance \<lparr>lecture = lectureId, date = start,
                         studentsPresent = []\<rparr>), st)))
      | _ \<Rightarrow> (CastError, st))"

text \<open>
  \<^verbatim>\<open>POST /api/attendance/mark\<close>. \<^verbatim>\<open>studentsPresent.includes(studentId)\<close> compares the
  string of the request with the stored ids (their \<^verbatim>\<open>toString()\<close>), so it is membership
  of the string as it came; \<^verbatim>\<open>push(studentId)\<close> casts the string and appends the
  \<^verbatim>\<open>ObjectId\<close>.
\<close>

definition markAttendance ::
  "server \<Rightarrow> ctx \<Rightarrow> store \<Rightarrow> string option \<Rightarrow> string option \<Rightarrow> string option \<Rightarrow> response \<times> store" where
  "markAttendance srv c st lectureField studentField d =
     (if falsy lectureField \<or> falsy studentField
      then (Json 400 (Message ''lectureId and studentId required''), st)
      else
        (case (lectureField, studentField, requestWindow srv c d) of
           (Some lectureId, Some studentId, Some start, Some end) \<Rightarrow>
             (case castObjectId srv lectureId of
                None \<Rightarrow> (CastError, st)
              | Some l \<Rightarrow>
                  (let found = findOne (inWindow l start end) (attendances st);
                       attendance =
                         (case found of
                            Some (i, a) \<Rightarrow> a
                          | None \<Rightarrow> \<lparr>lecture = l, date = start, studentsPresent = []\<rparr>)
                   in if studentId \<notin> set (studentsPresent attendance)
                      then
                        (case castObjectId srv studentId of
                           None \<Rightarrow> (CastError, st)
                         | Some x \<Rightarrow>
                             (let attendance' =
                                    attendance\<lparr>studentsPresent := studentsPresent attendance @ [x]\<rparr>;
                                  saved =
                                    (case found of
                                       Some (i, a) \<Rightarrow> (attendances st)[i := attendance']
                                     | None \<Rightarrow> attendances st @ [attendance'])
                              in (Json 200 (AttendanceMarked attendance'), st\<lparr>attendances := saved\<rparr>)))
                      else (Json 400 (Message ''Student already marked present''), st)))
         | _ \<Rightarrow> (CastError, st)))"

subsection \<open>Routing\<close>

text \<open>Every route but \<^verbatim>\<open>/api/login\<close> has \<^verbatim>\<open>authenticateToken\<close> in front of its handler.\<close>

definition gated :: "request \<Rightarrow> bool" where
  "gated req = (case req of Login u p \<Rightarrow> False | _ \<Rightarrow> True)"

definition handle :: "server \<Rightarrow> ctx \<Rightarrow> store \<Rightarrow> string option \<Rightarrow> request \<Rightarrow> response \<times> store" where
  "handle srv c st authHeader req =
     (case req of
        Login uname password \<Rightarrow> login srv c st uname password
      | _ \<Rightarrow>
          (case authenticateToken srv c authHeader of
             Inl refusal \<Rightarrow> (refusal, st)
           | Inr user \<Rightarrow>
               (case req of
                  Login uname password \<Rightarrow> login srv c st uname password
                | ChangePassword currentPassword newPassword \<Rightarrow>
                    changePassword srv c st user currentPassword newPassword
                | RegisterStudent rollNoField nameField files \<Rightarrow>
                    registerStudent c st rollNoField nameField files
                | ListStudents \<Rightarrow> listStudents st
                | ListLectures \<Rightarrow> listLectures st
                | GetAttendance lectureId d \<Rightarrow> getAttendance srv c st lectureId d
                | MarkAttendance lectureField studentField d \<Rightarrow>
                    markAttendance srv c st lectureField studentField d)))"

subsection \<open>Runs of the server\<close>

text \<open>
  A run handles requests one after the other; every request comes with its
  \<^verbatim>\<open>Authorization\<close> header and with what it draws from outside.
\<close>

type_synonym call = "ctx \<times> string option \<times> request"

definition step :: "server \<Rightarrow> store \<Rightarrow> call \<Rightarrow> store" where
  "step srv st cl = (case cl of (c, authHeader, req) \<Rightarrow> snd (handle srv c st authHeader req))"

definition run :: "server \<Rightarrow> store \<Rightarrow> call list \<Rightarrow> store" where
  "run srv st cls = foldl (step srv) st cls"

text \<open>The key of an attendance document: its lecture and the local day of its date.\<close>

definition dayKey :: "int \<Rightarrow> 'a attendance_doc \<Rightarrow> oid \<times> int" where
  "dayKey tz r = (lecture r, localDay tz (date r))"

definition oneRecordPerDay :: "int \<Rightarrow> 'a attendance_doc list \<Rightarrow> bool" where
  "oneRecordPerDay tz atts = distinct (map (dayKey tz) atts)"

text \<open>
  \<open>keeps a b\<close>: document \<open>b\<close> is document \<open>a\<close> with, at most, more students present.
  \<open>grows old new\<close>: every document of \<open>old\<close> is still there, at its place, and has
  only gained students.
\<close>

definition keeps :: "'a attendance_doc \<Rightarrow> 'a attendance_doc \<Rightarrow> bool" where
  "keeps a b =
     (lecture b = lecture a \<and> date b = date a \<and> set (studentsPresent a) \<subseteq> set (studentsPresent b))"

definition grows :: "'a attendance_doc list \<Rightarrow> 'a attendance_doc list \<Rightarrow> bool" where
  "grows old new = (length old \<le> length new \<and> list_all2 keeps old (take (length old) new))"

subsection \<open>A concrete server for the examples\<close>

text \<open>
  Stand-ins for the libraries, exact on the inputs the examples use. The ISO date
  \<^verbatim>\<open>2024-01-15\<close> is midnight UTC of that day, \<^verbatim>\<open>+275760-09-13T00:00:00.000Z\<close> is the last
  time value of a \<^verbatim>\<open>Date\<close>, and \<^verbatim>\<open>abc\<close> is no date. A string of 24 hexadecimal digits
  is cast to the \<^verbatim>\<open>ObjectId\<close> it spells, whose \<^verbatim>\<open>toString()\<close> is in lower case; \<^verbatim>\<open>abc\<close> is
  no \<^verbatim>\<open>ObjectId\<close>. One token is validly signed and expires, one has a forged signature,
  anything else is malformed. The server is at UTC+05:30.
\<close>

definition demoParse :: "string \<Rightarrow> jsdate" where
  "demoParse s =
     (if s = ''2024-01-15'' then Some 1705276800000
      else if s = ''+275760-09-13T00:00:00.000Z'' then Some 8640000000000000
      else None)"

definition isHex :: "char \<Rightarrow> bool" where
  "isHex ch = (ch \<in> set ''0123456789abcdefABCDEF'')"

definition lowerHex :: "char \<Rightarrow> char" where
  "lowerHex ch = (case map_of (zip ''ABCDEF'' ''abcdef'') ch of None \<Rightarrow> ch | Some l \<Rightarrow> l)"

definition hexObjectId :: "string \<Rightarrow> oid option" where
  "hexObjectId s = (if length s = 24 \<and> list_all isHex s then Some (map lowerHex s) else None)"

definition demoVerify :: "string \<Rightarrow> int \<Rightarrow> jwt_result" where
  "demoVerify token t =
     (if token = ''akash.signed''
      then (if t < 1705305600000 then JwtValid ''Akash'' else JwtExpired)
      else if token = ''akash.forged'' then JwtInvalidSignature
      else JwtMalformed)"

definition demoSign :: "string \<Rightarrow> int \<Rightarrow> string" where
  "demoSign u t = ''akash.signed''"

definition demoCompare :: "string \<Rightarrow> string \<Rightarrow> bool" where
  "demoCompare p h = (h = rev p)"

definition demoHash :: "string \<Rightarrow> string \<Rightarrow> string" where
  "demoHash s p = rev p"

definition demoServer :: server where
  "demoServer =
     \<lparr>tzOffset = 19800000, parseDate = demoParse, castObjectId = hexObjectId,
      jwtVerify = demoVerify, jwtSign = demoSign,
      bcryptCompare = demoCompare, bcryptHash = demoHash\<rparr>"

text \<open>Two lectures and three students, and the first student's id in upper case.\<close>

definition lectureA :: oid where
  "lectureA = ''64b7f0c2a1d3e4f5a6b7c801''"

definition lectureB :: oid where
  "lectureB = ''64b7f0c2a1d3e4f5a6b7c802''"

definition studentA :: oid where
  "studentA = ''5f1d7f3e8b2c4a0012345603''"

definition studentAUpper :: string where
  "studentAUpper = ''5F1D7F3E8B2C4A0012345603''"

definition studentB :: oid where
  "studentB = ''5f1d7f3e8b2c4a0012345605''"

definition studentC :: oid where
  "studentC = ''5f1d7f3e8b2c4a0012345607''"

text \<open>
  The clock of \<open>demoCtx\<close> is on 15 January 2024, local time, before the token expires;
  that of \<open>lateCtx\<close> is on the same day after the expiry, that of \<open>nextDayCtx\<close> on
  16 January.
\<close>

definition demoCtx :: ctx where
  "demoCtx = \<lparr>now = 1705300000000, salt = ''salt'', freshOid = studentC\<rparr>"

definition lateCtx :: ctx where
  "lateCtx = \<lparr>now = 1705310000000, salt = ''salt'', freshOid = studentC\<rparr>"

definition nextDayCtx :: ctx where
  "nextDayCtx = \<lparr>now = 1705400000000, salt = ''salt'', freshOid = studentC\<rparr>"

definition demoStore :: store where
  "demoStore =
     \<lparr>users = [\<lparr>username = ''Akash'', passwordHash = ''54321''\<rparr>],
      students = [\<lparr>sid = studentA, rollNo = ''R1'', name = ''Asha'',
                   photos = [''/uploads/students/a.png'', ''/uploads/students/b.png'']\<rparr>],
      lectures = [],
      attendances = [\<lparr>lecture = lectureA, date = 1705257000000, studentsPresent = [studentB]\<rparr>]\<rparr>"

definition demoAuth :: "string option" where
  "demoAuth = Some ''Bearer akash.signed''"

section \<open>Properties\<close>

subsection \<open>Lookups\<close>

lemma findOne_None_iff: "findOne P xs = None \<longleftrightarrow> (\<forall>x \<in> set xs. \<not> P x)"
  by (induction xs) (auto split: option.splits)

lemma findOne_SomeD:
  "findOne P xs = Some (i, x) \<Longrightarrow> i < length xs \<and> xs ! i = x \<and> P x \<and> (\<forall>j < i. \<not> P (xs ! j))"
proof (induction xs arbitrary: i)
  case Nil
  then show ?case by simp
next
  case (Cons y ys)
  show ?case
  proof (cases "P y")
    case True
    with Cons.prems show ?thesis by simp
  next
    case False
    with Cons.prems obtain k where k: "findOne P ys = Some (k, x)" "i = Suc k"
      by (auto split: option.splits)
    from Cons.IH [OF k(1)] False k(2) show ?thesis
      by (auto simp: less_Suc_eq_0_disj)
  qed
qed

lemma findOne_update:
  "findOne P xs = Some (i, x) \<Longrightarrow> P x' \<Longrightarrow> findOne P (xs[i := x']) = Some (i, x')"
proof (induction xs arbitrary: i)
  case Nil
  then show ?case by simp
next
  case (Cons y ys)
  show ?case
  proof (cases "P y")
    case True
    with Cons.prems show ?thesis by simp
  next
    case False
    with Cons.prems obtain k where k: "findOne P ys = Some (k, x)" "i = Suc k"
      by (auto split: option.splits)
    from Cons.IH [OF k(1) Cons.prems(2)] False k(2) show ?thesis
      by simp
  qed
qed

lemma findOne_append_new:
  "findOne P xs = None \<Longrightarrow> P x \<Longrightarrow> findOne P (xs @ [x]) = Some (length xs, x)"
  by (induction xs) (auto split: option.splits if_splits)

subsection \<open>Day windows\<close>

lemma localDay_start: "localDay tz (localDay tz t * msPerDay - tz) = localDay tz t"
  unfolding localDay_def localTime_def msPerDay_def by simp

lemma dayWindow_Some:
  "dayWindow tz (Some t) =
     (case timeClip (localDay tz t * msPerDay - tz) of
        None \<Rightarrow> (None, None)
      | Some s \<Rightarrow> (Some s, timeClip (s + 86399999)))"
proof (cases "timeClip (localDay tz t * msPerDay - tz)")
  case None
  then show ?thesis
    by (simp add: dayWindow_def setHours_def localDay_def utcTime_def makeTime_def)
next
  case (Some s)
  then have s: "s = localDay tz t * msPerDay - tz"
    by (simp add: timeClip_def split: if_splits)
  have "localTime tz s div msPerDay = localDay tz t"
    using localDay_start [of tz t] s by (simp add: localDay_def)
  with Some s show ?thesis
    by (simp add: dayWindow_def setHours_def localDay_def utcTime_def makeTime_def diff_add_eq)
qed

lemma dayWindow_None: "dayWindow tz None = (None, None)"
  by (simp add: dayWindow_def setHours_def)

lemma in_day_iff:
  "(localDay tz t * msPerDay - tz \<le> u \<and> u \<le> localDay tz t * msPerDay - tz + 86399999)
     \<longleftrightarrow> localDay tz u = localDay tz t"
  unfolding localDay_def localTime_def msPerDay_def by auto

lemma requestWindow_SomeD:
  assumes "requestWindow srv c d = (Some s, Some e)"
  obtains t where "requestDate (parseDate srv) (now c) d = Some t"
    and "s = localDay (tzOffset srv) t * msPerDay - tzOffset srv" and "e = s + 86399999"
proof (cases "requestDate (parseDate srv) (now c) d")
  case None
  with assms show ?thesis
    by (simp add: requestWindow_def dayWindow_None)
next
  case (Some t)
  with assms have "s = localDay (tzOffset srv) t * msPerDay - tzOffset srv \<and> e = s + 86399999"
    by (auto simp: requestWindow_def dayWindow_Some timeClip_def split: option.splits if_splits)
  with Some that show ?thesis
    by blast
qed

lemma requestWindow_bounds:
  "requestWindow srv c d = (Some s, Some e) \<Longrightarrow> e = s + 86399999"
  by (erule requestWindow_SomeD)

lemma requestWindow_start:
  assumes "requestDate (parseDate srv) (now c) d = Some t"
      and "\<bar>localDay (tzOffset srv) t * msPerDay - tzOffset srv\<bar> \<le> maxTime"
      and "\<bar>localDay (tzOffset srv) t * msPerDay - tzOffset srv + 86399999\<bar> \<le> maxTime"
  shows "requestWindow srv c d =
           (Some (localDay (tzOffset srv) t * msPerDay - tzOffset srv),
            Some (localDay (tzOffset srv) t * msPerDay - tzOffset srv + 86399999))"
  using assms by (simp add: requestWindow_def dayWindow_Some timeClip_def)

lemma local_midnight:
  "localTime tz (localDay tz t * msPerDay - tz) mod msPerDay = 0"
  "localDay tz t * msPerDay - tz \<le> t"
  "t < localDay tz t * msPerDay - tz + msPerDay"
  unfolding localDay_def localTime_def msPerDay_def by auto

lemma window_iff:
  assumes "requestWindow srv c d = (Some s, Some e)"
  shows "(s \<le> u \<and> u \<le> e) \<longleftrightarrow> localDay (tzOffset srv) u = localDay (tzOffset srv) s"
proof -
  let ?tz = "tzOffset srv"
  from assms obtain t where s: "s = localDay ?tz t * msPerDay - ?tz" and e: "e = s + 86399999"
    by (rule requestWindow_SomeD)
  have "localDay ?tz s = localDay ?tz t"
    using localDay_start [of ?tz t] s by simp
  with in_day_iff [of ?tz t u] s e show ?thesis by simp
qed

lemma demoWindow:
  "requestWindow demoServer demoCtx (Some ''2024-01-15'') = (Some 1705257000000, Some 1705343399999)"
  "requestWindow demoServer demoCtx None = (Some 1705257000000, Some 1705343399999)"
  "requestWindow demoServer nextDayCtx (Some ''2024-01-15'') = (Some 1705257000000, Some 1705343399999)"
  "requestWindow demoServer nextDayCtx None = (Some 1705343400000, Some 1705429799999)"
  "requestWindow demoServer demoCtx (Some ''abc'') = (None, None)"
  "requestWindow demoServer demoCtx (Some ''+275760-09-13T00:00:00.000Z'') =
     (Some 8639999980200000, None)"
  by (simp_all add: requestWindow_def demoServer_def demoCtx_def nextDayCtx_def demoParse_def
        requestDate_def dayWindow_Some dayWindow_None localDay_def localTime_def msPerDay_def
        timeClip_def maxTime_def)

lemma demoCast:
  "castObjectId demoServer lectureA = Some lectureA"
  "castObjectId demoServer lectureB = Some lectureB"
  "castObjectId demoServer studentA = Some studentA"
  "castObjectId demoServer studentAUpper = Some studentA"
  "castObjectId demoServer studentB = Some studentB"
  "castObjectId demoServer ''abc'' = None"
  by (simp_all add: demoServer_def hexObjectId_def isHex_def lowerHex_def
        lectureA_def lectureB_def studentA_def studentAUpper_def studentB_def)

lemma demoIds:
  "lectureA \<noteq> lectureB" "studentA \<noteq> studentB" "studentAUpper \<noteq> studentA"
  "studentAUpper \<noteq> studentB" "studentA \<noteq> []" "studentAUpper \<noteq> []" "studentB \<noteq> []"
  "lectureA \<noteq> []" "lectureB \<noteq> []" "lectureB \<noteq> lectureA" "studentB \<noteq> studentA"
  by (simp_all add: lectureA_def lectureB_def studentA_def studentAUpper_def studentB_def)

subsection \<open>The branches of the attendance handlers\<close>

lemma mark_found:
  assumes "requestWindow srv c d = (Some s, Some e)"
      and "ls \<noteq> []" and "xs \<noteq> []"
      and "castObjectId srv ls = Some l"
      and "findOne (inWindow l s e) (attendances st) = Some (i, a)"
      and "xs \<notin> set (studentsPresent a)"
      and "castObjectId srv xs = Some x"
  shows "markAttendance srv c st (Some ls) (Some xs) d =
           (Json 200 (AttendanceMarked (a\<lparr>studentsPresent := studentsPresent a @ [x]\<rparr>)),
            st\<lparr>attendances := (attendances st)[i := a\<lparr>studentsPresent := studentsPresent a @ [x]\<rparr>]\<rparr>)"
  using assms by (simp add: markAttendance_def falsy_def Let_def)

lemma mark_new:
  assumes "requestWindow srv c d = (Some s, Some e)"
      and "ls \<noteq> []" and "xs \<noteq> []"
      and "castObjectId srv ls = Some l"
      and "findOne (inWindow l s e) (attendances st) = None"
      and "castObjectId srv xs = Some x"
  shows "markAttendance srv c st (Some ls) (Some xs) d =
           (Json 200 (AttendanceMarked \<lparr>lecture = l, date = s, studentsPresent = [x]\<rparr>),
            st\<lparr>attendances := attendances st @ [\<lparr>lecture = l, date = s, studentsPresent = [x]\<rparr>]\<rparr>)"
  using assms by (simp add: markAttendance_def falsy_def Let_def)

lemma mark_conflict:
  assumes "requestWindow srv c d = (Some s, Some e)"
      and "ls \<noteq> []" and "xs \<noteq> []"
      and "castObjectId srv ls = Some l"
      and "findOne (inWindow l s e) (attendances st) = Some (i, a)"
      and "xs \<in> set (studentsPresent a)"
  shows "markAttendance srv c st (Some ls) (Some xs) d =
           (Json 400 (Message ''Student already marked present''), st)"
  using assms by (simp add: markAttendance_def falsy_def Let_def)

lemma query_found:
  assumes "requestWindow srv c d = (Some s, Some e)"
      and "castObjectId srv ls = Some l"
      and "findOne (inWindow l s e) (attendances st) = Some (i, a)"
  shows "getAttendance srv c st ls d =
           (Json 200 (Attendance \<lparr>lecture = lecture a, date = date a,
              studentsPresent = populate (students st) (studentsPresent a)\<rparr>), st)"
  using assms by (simp add: getAttendance_def)

lemma query_none:
  assumes "requestWindow srv c d = (Some s, Some e)"
      and "castObjectId srv ls = Some l"
      and "findOne (inWindow l s e) (attendances st) = None"
  shows "getAttendance srv c st ls d =
           (Json 200 (Attendance \<lparr>lecture = ls, date = s, studentsPresent = []\<rparr>), st)"
  using assms by (simp add: getAttendance_def)

subsection \<open>The read-time join\<close>

lemma populate_Nil: "populate studs [] = []"
  by (simp add: populate_def)

lemma populate_Cons:
  "populate studs (i # ids) =
     (case findOne (\<lambda>s. sid s = i) studs of
        None \<Rightarrow> populate studs ids
      | Some (k, s) \<Rightarrow> s # populate studs ids)"
  by (simp add: populate_def split: option.splits)

lemma populate_count:
  "length (filter (\<lambda>s. sid s = x) (populate studs ids)) =
     (if x \<in> sid ` set studs then count_list ids x else 0)"
proof (induction ids)
  case Nil
  show ?case by (simp add: populate_Nil)
next
  case (Cons i ids)
  show ?case
  proof (cases "findOne (\<lambda>s. sid s = i) studs")
    case None
    then have "i \<notin> sid ` set studs"
      by (auto simp: findOne_None_iff)
    with None Cons.IH show ?thesis
      by (auto simp: populate_Cons)
  next
    case (Some p)
    obtain k s where p: "p = (k, s)" by (cases p)
    from Some p findOne_SomeD [of "\<lambda>s. sid s = i" studs k s]
    have "sid s = i" "s \<in> set studs"
      by (auto simp: set_conv_nth)
    with Some p Cons.IH show ?thesis
      by (auto simp: populate_Cons)
  qed
qed

subsection \<open>Steps and runs\<close>

lemma mark_cases:
  obtains (same) "snd (markAttendance srv c st lf sf d) = st"
  | (add) ls xs l x s e i a where
      "lf = Some ls" "sf = Some xs" "ls \<noteq> []" "xs \<noteq> []"
      "castObjectId srv ls = Some l" "castObjectId srv xs = Some x"
      "requestWindow srv c d = (Some s, Some e)"
      "findOne (inWindow l s e) (attendances st) = Some (i, a)"
      "xs \<notin> set (studentsPresent a)"
      "snd (markAttendance srv c st lf sf d) =
         st\<lparr>attendances := (attendances st)[i := a\<lparr>studentsPresent := studentsPresent a @ [x]\<rparr>]\<rparr>"
  | (new) ls xs l x s e where
      "lf = Some ls" "sf = Some xs" "ls \<noteq> []" "xs \<noteq> []"
      "castObjectId srv ls = Some l" "castObjectId srv xs = Some x"
      "requestWindow srv c d = (Some s, Some e)"
      "findOne (inWindow l s e) (attendances st) = None"
      "snd (markAttendance srv c st lf sf d) =
         st\<lparr>attendances := attendances st @ [\<lparr>lecture = l, date = s, studentsPresent = [x]\<rparr>]\<rparr>"
proof (cases "\<exists>ls xs l s e. lf = Some ls \<and> sf = Some xs \<and> ls \<noteq> [] \<and> xs \<noteq> []
                \<and> castObjectId srv ls = Some l \<and> requestWindow srv c d = (Some s, Some e)")
  case False
  then have "snd (markAttendance srv c st lf sf d) = st"
    by (auto simp: markAttendance_def falsy_def split: option.splits prod.splits)
  then show ?thesis by (rule same)
next
  case True
  then obtain ls xs l s e where f: "lf = Some ls" "sf = Some xs" "ls \<noteq> []" "xs \<noteq> []"
    and l: "castObjectId srv ls = Some l" and w: "requestWindow srv c d = (Some s, Some e)"
    by blast
  show ?thesis
  proof (cases "castObjectId srv xs")
    case None
    with f l w have "snd (markAttendance srv c st lf sf d) = st"
      by (simp add: markAttendance_def falsy_def Let_def)
    then show ?thesis by (rule same)
  next
    case (Some x)
    show ?thesis
    proof (cases "findOne (inWindow l s e) (attendances st)")
      case None
      from mark_new [OF w f(3,4) l None Some] f show ?thesis
        by (intro new [of ls xs l x s e]) (simp_all add: l Some w None)
    next
      case found: (Some p)
      obtain i a where p: "p = (i, a)" by (cases p)
      with found have found: "findOne (inWindow l s e) (attendances st) = Some (i, a)" by simp
      show ?thesis
      proof (cases "xs \<in> set (studentsPresent a)")
        case True
        from mark_conflict [OF w f(3,4) l found True] f show ?thesis
          by (simp add: same)
      next
        case False
        from mark_found [OF w f(3,4) l found False Some] f show ?thesis
          by (intro add [of ls xs l x s e i a]) (simp_all add: l Some w found False)
      qed
    qed
  qed
qed

lemma step_cases:
  obtains (same) "attendances (step srv st cl) = attendances st"
  | (add) c h ls xs d l x s e i a where
      "cl = (c, h, MarkAttendance (Some ls) (Some xs) d)"
      "castObjectId srv ls = Some l" "castObjectId srv xs = Some x"
      "requestWindow srv c d = (Some s, Some e)"
      "findOne (inWindow l s e) (attendances st) = Some (i, a)"
      "xs \<notin> set (studentsPresent a)"
      "attendances (step srv st cl) =
         (attendances st)[i := a\<lparr>studentsPresent := studentsPresent a @ [x]\<rparr>]"
  | (new) c h ls xs d l x s e where
      "cl = (c, h, MarkAttendance (Some ls) (Some xs) d)"
      "castObjectId srv ls = Some l" "castObjectId srv xs = Some x"
      "requestWindow srv c d = (Some s, Some e)"
      "findOne (inWindow l s e) (attendances st) = None"
      "attendances (step srv st cl) =
         attendances st @ [\<lparr>lecture = l, date = s, studentsPresent = [x]\<rparr>]"
proof -
  obtain c h req where cl: "cl = (c, h, req)" by (cases cl)
  show ?thesis
  proof (cases "\<exists>lf sf d. req = MarkAttendance lf sf d \<and> (\<exists>u. authenticateToken srv c h = Inr u)")
    case False
    have "attendances (step srv st cl) = attendances st"
      using False cl
      by (cases req; cases "authenticateToken srv c h")
         (auto simp: step_def handle_def login_def changePassword_def registerStudent_def
            listStudents_def listLectures_def getAttendance_def Let_def
            split: option.splits prod.splits if_splits)
    then show ?thesis by (rule same)
  next
    case True
    then obtain lf sf d u where req: "req = MarkAttendance lf sf d"
      and u: "authenticateToken srv c h = Inr u" by blast
    have st': "step srv st cl = snd (markAttendance srv c st lf sf d)"
      using cl req u by (simp add: step_def handle_def)
    show ?thesis
    proof (cases rule: mark_cases [of srv c st lf sf d])
      case same
      with st' show ?thesis by (simp add: that(1))
    next
      case (add ls xs l x s e i a)
      with st' cl req show ?thesis
        by (intro that(2) [of c h ls xs d l x s e i a]) simp_all
    next
      case (new ls xs l x s e)
      with st' cl req show ?thesis
        by (intro that(3) [of c h ls xs d l x s e]) simp_all
    qed
  qed
qed

lemma new_key_fresh:
  assumes w: "requestWindow srv c d = (Some s, Some e)"
      and none: "findOne (inWindow l s e) atts = None"
  shows "(l, localDay (tzOffset srv) s) \<notin> dayKey (tzOffset srv) ` set atts"
proof
  assume "(l, localDay (tzOffset srv) s) \<in> dayKey (tzOffset srv) ` set atts"
  then obtain r where r: "r \<in> set atts" "lecture r = l"
      "localDay (tzOffset srv) (date r) = localDay (tzOffset srv) s"
    by (auto simp: dayKey_def)
  with window_iff [OF w, of "date r"] have "inWindow l s e r"
    by (simp add: inWindow_def)
  with none r(1) show False
    by (simp add: findOne_None_iff)
qed

lemma step_oneRecordPerDay:
  assumes "oneRecordPerDay (tzOffset srv) (attendances st)"
  shows "oneRecordPerDay (tzOffset srv) (attendances (step srv st cl))"
proof (cases rule: step_cases [of srv st cl])
  case same
  with assms show ?thesis by simp
next
  case (add c h ls xs d l x s e i a)
  let ?a = "a\<lparr>studentsPresent := studentsPresent a @ [x]\<rparr>"
  from findOne_SomeD [OF add(5)] have i: "i < length (attendances st)" "attendances st ! i = a"
    by simp_all
  have "map (dayKey (tzOffset srv)) ((attendances st)[i := ?a]) =
          (map (dayKey (tzOffset srv)) (attendances st))[i := dayKey (tzOffset srv) a]"
    by (simp add: map_update dayKey_def)
  also have "\<dots> = map (dayKey (tzOffset srv)) (attendances st)"
    using i by (metis list_update_id nth_map length_map)
  finally show ?thesis
    using assms add(7) by (simp add: oneRecordPerDay_def)
next
  case (new c h ls xs d l x s e)
  from new_key_fresh [OF new(4) new(5)] assms new(6) show ?thesis
    by (simp add: oneRecordPerDay_def dayKey_def)
qed

lemma keeps_refl: "keeps a a"
  by (simp add: keeps_def)

lemma grows_refl: "grows xs xs"
  by (simp add: grows_def list_all2_refl keeps_refl)

lemma grows_trans:
  assumes "grows xs ys" and "grows ys zs"
  shows "grows xs zs"
proof -
  from assms have len: "length xs \<le> length ys" "length ys \<le> length zs"
    by (simp_all add: grows_def)
  from assms(2) have "list_all2 keeps ys (take (length ys) zs)"
    by (simp add: grows_def)
  then have "list_all2 keeps (take (length xs) ys) (take (length xs) (take (length ys) zs))"
    by (rule list_all2_takeI)
  with len have "list_all2 keeps (take (length xs) ys) (take (length xs) zs)"
    by (simp add: min_absorb1)
  then have B: "list_all2 keeps (take (length xs) ys) (take (length xs) zs)" .
  from assms(1) have A: "list_all2 keeps xs (take (length xs) ys)"
    by (simp add: grows_def)
  have "list_all2 keeps xs (take (length xs) zs)"
    by (rule list_all2_trans [OF _ A B]) (auto simp: keeps_def)
  with len show ?thesis
    by (simp add: grows_def)
qed

lemma step_grows: "grows (attendances st) (attendances (step srv st cl))"
proof (cases rule: step_cases [of srv st cl])
  case same
  then show ?thesis by (simp add: grows_refl)
next
  case (add c h ls xs d l x s e i a)
  let ?a = "a\<lparr>studentsPresent := studentsPresent a @ [x]\<rparr>"
  from findOne_SomeD [OF add(5)] have i: "i < length (attendances st)" "attendances st ! i = a"
    by simp_all
  have "list_all2 keeps ((attendances st)[i := a]) ((attendances st)[i := ?a])"
    by (rule list_all2_update_cong) (auto simp: list_all2_refl keeps_refl keeps_def)
  moreover have "(attendances st)[i := a] = attendances st"
    using i(2) list_update_id [of "attendances st" i] by simp
  ultimately show ?thesis
    using add(7) by (simp add: grows_def)
next
  case (new c h ls xs d l x s e)
  then show ?thesis
    by (simp add: grows_def list_all2_refl keeps_refl)
qed

lemma run_snoc: "run srv st (cls @ [cl]) = step srv (run srv st cls) cl"
  by (simp add: run_def)

lemma run_append: "run srv st (xs @ ys) = run srv (run srv st xs) ys"
  by (simp add: run_def)

lemma run_grows: "grows (attendances st) (attendances (run srv st cls))"
proof (induction cls rule: rev_induct)
  case Nil
  show ?case by (simp add: run_def grows_refl)
next
  case (snoc cl cls)
  from snoc.IH step_grows [of "run srv st cls" srv cl] show ?case
    unfolding run_snoc by (rule grows_trans)
qed

lemma run_oneRecordPerDay:
  "oneRecordPerDay (tzOffset srv) (attendances st) \<Longrightarrow>
   oneRecordPerDay (tzOffset srv) (attendances (run srv st cls))"
  by (induction cls rule: rev_induct) (simp_all add: run_def step_oneRecordPerDay)

lemma demoAuth_ok: "authenticateToken demoServer demoCtx demoAuth = Inr ''Akash''"
  by (simp add: authenticateToken_def bearerToken_def demoAuth_def demoServer_def
        demoVerify_def demoCtx_def)

subsection \<open>Roll numbers\<close>

lemma distinct_map_count:
  "distinct (map f xs) \<Longrightarrow> x \<in> f ` set xs \<Longrightarrow> length (filter (\<lambda>s. f s = x) xs) = 1"
  by (induction xs) (auto simp: image_iff filter_empty_conv)

lemma registerStudent_students:
  "students (snd (registerStudent c st r n files)) = students st
   \<or> (\<exists>stu. rollNo stu \<notin> rollNo ` set (students st)
          \<and> students (snd (registerStudent c st r n files)) = students st @ [stu])"
  by (auto simp: registerStudent_def Let_def findOne_None_iff split: option.splits)

lemma registerStudent_distinct:
  assumes "distinct (map rollNo (students st))"
  shows "distinct (map rollNo (students (snd (registerStudent c st r n files))))"
  using registerStudent_students [of c st r n files] assms by auto

lemma step_students:
  "students (step srv st cl) = students st
   \<or> (\<exists>c r n files. students (step srv st cl) = students (snd (registerStudent c st r n files)))"
proof -
  obtain c h req where cl: "cl = (c, h, req)" by (cases cl)
  show ?thesis
    unfolding cl
    by (cases req; cases "authenticateToken srv c h")
       (auto simp: step_def handle_def login_def changePassword_def
          listStudents_def listLectures_def getAttendance_def markAttendance_def Let_def
          split: option.splits prod.splits if_splits)
qed

lemma step_distinct_rollNo:
  assumes "distinct (map rollNo (students st))"
  shows "distinct (map rollNo (students (step srv st cl)))"
  using step_students [of srv st cl] registerStudent_distinct [OF assms] assms by auto

lemma run_distinct_rollNo:
  "distinct (map rollNo (students st)) \<Longrightarrow> distinct (map rollNo (students (run srv st cls)))"
  by (induction cls rule: rev_induct) (simp_all add: run_def step_distinct_rollNo)


text \<open>
  The outcomes of a registration: more than two files are refused by the upload
  middleware; with at most two files, a missing or empty roll number or name and then
  fewer than two files are answered 400; with two files and both fields, a roll number
  that is taken is answered 400 and a new one stores the student. Roll numbers stay
  distinct on every run from a store without students.
\<close>

lemma registerStudent_outcomes:
  fixes c st rollNoField nameField files
  defines "res \<equiv> registerStudent c st rollNoField nameField files"
  shows "(2 < length files \<longrightarrow> res = (UploadError, st))
   \<and> (length files \<le> 2 \<and> (falsy rollNoField \<or> falsy nameField) \<longrightarrow>
        res = (Json 400 (Message ''Roll No and Name are required''), st))
   \<and> (length files < 2 \<and> \<not> falsy rollNoField \<and> \<not> falsy nameField \<longrightarrow>
        res = (Json 400 (Message ''Two photos required''), st))
   \<and> (\<forall>r n. length files = 2 \<and> rollNoField = Some r \<and> r \<noteq> [] \<and> nameField = Some n \<and> n \<noteq> []
          \<and> r \<in> rollNo ` set (students st) \<longrightarrow>
        res = (Json 400 (Message ''Student with this roll no already exists''), st)
        \<and> (distinct (map rollNo (students st)) \<longrightarrow>
             length (filter (\<lambda>s. rollNo s = r) (students (snd res))) = 1))
   \<and> (\<forall>r n. length files = 2 \<and> rollNoField = Some r \<and> r \<noteq> [] \<and> nameField = Some n \<and> n \<noteq> []
          \<and> r \<notin> rollNo ` set (students st) \<longrightarrow>
        (let student = \<lparr>sid = freshOid c, rollNo = r, name = n,
                         photos = map (\<lambda>f. ''/uploads/students/'' @ f) files\<rparr>
         in res = (Json 200 (StudentRegistered student), st\<lparr>students := students st @ [student]\<rparr>)
            \<and> length (photos student) = 2))
   \<and> (students st0 = [] \<longrightarrow> distinct (map rollNo (students (run srv st0 cls))))"
proof (intro conjI allI impI)
  assume "2 < length files"
  then show "res = (UploadError, st)"
    by (simp add: res_def registerStudent_def)
next
  assume "length files \<le> 2 \<and> (falsy rollNoField \<or> falsy nameField)"
  then show "res = (Json 400 (Message ''Roll No and Name are required''), st)"
    by (auto simp: res_def registerStudent_def)
next
  assume "length files < 2 \<and> \<not> falsy rollNoField \<and> \<not> falsy nameField"
  then show "res = (Json 400 (Message ''Two photos required''), st)"
    by (auto simp: res_def registerStudent_def)
next
  fix r n
  assume a: "length files = 2 \<and> rollNoField = Some r \<and> r \<noteq> [] \<and> nameField = Some n \<and> n \<noteq> []
          \<and> r \<in> rollNo ` set (students st)"
  then have "findOne (\<lambda>s. rollNo s = r) (students st) \<noteq> None"
    by (auto simp: findOne_None_iff)
  with a show conflict: "res = (Json 400 (Message ''Student with this roll no already exists''), st)"
    by (auto simp: res_def registerStudent_def falsy_def)
  assume "distinct (map rollNo (students st))"
  with a conflict show "length (filter (\<lambda>s. rollNo s = r) (students (snd res))) = 1"
    by (simp add: distinct_map_count)
next
  fix r n
  assume a: "length files = 2 \<and> rollNoField = Some r \<and> r \<noteq> [] \<and> nameField = Some n \<and> n \<noteq> []
          \<and> r \<notin> rollNo ` set (students st)"
  then have "findOne (\<lambda>s. rollNo s = r) (students st) = None"
    by (auto simp: findOne_None_iff)
  with a show "let student = \<lparr>sid = freshOid c, rollNo = r, name = n,
                         photos = map (\<lambda>f. ''/uploads/students/'' @ f) files\<rparr>
         in res = (Json 200 (StudentRegistered student), st\<lparr>students := students st @ [student]\<rparr>)
            \<and> length (photos student) = 2"
    by (simp add: res_def registerStudent_def falsy_def Let_def)
next
  assume "students st0 = []"
  then have "distinct (map rollNo (students st0))"
    by simp
  then show "distinct (map rollNo (students (run srv st0 cls)))"
    by (rule run_distinct_rollNo)
qed


subsection \<open>Marking twice\<close>

text \<open>
  Two marks and a query for the same lecture and day, with the student's id spelled the
  way it is stored (the cast of the string is the string itself) and the student not yet
  marked: the first mark stores the student, the second is refused and changes nothing,
  and the record the query reads holds the student once.
\<close>

lemma mark_twice_same_spelling:
  fixes srv c1 c2 c3 st ls xs d1 d2 d3
  defines "m1 \<equiv> markAttendance srv c1 st (Some ls) (Some xs) d1"
  defines "m2 \<equiv> markAttendance srv c2 (snd m1) (Some ls) (Some xs) d2"
  defines "q \<equiv> getAttendance srv c3 (snd m2) ls d3"
  assumes w1: "requestWindow srv c1 d1 = (Some s, Some e)"
      and w2: "requestWindow srv c2 d2 = (Some s, Some e)"
      and w3: "requestWindow srv c3 d3 = (Some s, Some e)"
      and ne: "ls \<noteq> []" "xs \<noteq> []"
      and l: "castObjectId srv ls = Some l"
      and x: "castObjectId srv xs = Some xs"
      and unmarked: "\<forall>r \<in> set (attendances st). inWindow l s e r \<longrightarrow> xs \<notin> set (studentsPresent r)"
  shows "\<exists>k a. fst m1 = Json 200 (AttendanceMarked a)
           \<and> findOne (inWindow l s e) (attendances (snd m1)) = Some (k, a)
           \<and> count_list (studentsPresent a) xs = 1
           \<and> m2 = (Json 400 (Message ''Student already marked present''), snd m1)
           \<and> q = (Json 200 (Attendance \<lparr>lecture = lecture a, date = date a,
                  studentsPresent = populate (students st) (studentsPresent a)\<rparr>), snd m1)"
proof -
  have se: "s \<le> e"
    using requestWindow_bounds [OF w1] by simp
  obtain k a where m1: "fst m1 = Json 200 (AttendanceMarked a)"
      and f1: "findOne (inWindow l s e) (attendances (snd m1)) = Some (k, a)"
      and cnt: "count_list (studentsPresent a) xs = 1"
      and studs: "students (snd m1) = students st"
  proof (cases "findOne (inWindow l s e) (attendances st)")
    case None
    let ?a = "\<lparr>lecture = l, date = s, studentsPresent = [xs]\<rparr>"
    have "inWindow l s e ?a"
      using se by (simp add: inWindow_def)
    with None have "findOne (inWindow l s e) (attendances st @ [?a]) = Some (length (attendances st), ?a)"
      by (rule findOne_append_new)
    with that [of ?a "length (attendances st)"] mark_new [OF w1 ne l None x] show ?thesis
      by (simp add: m1_def)
  next
    case (Some p)
    obtain i b where p: "p = (i, b)" by (cases p)
    from Some p have found: "findOne (inWindow l s e) (attendances st) = Some (i, b)"
      by simp
    from findOne_SomeD [OF found] have b: "b \<in> set (attendances st)" "inWindow l s e b"
      by (auto simp: set_conv_nth)
    with unmarked have nx: "xs \<notin> set (studentsPresent b)"
      by blast
    let ?a = "b\<lparr>studentsPresent := studentsPresent b @ [xs]\<rparr>"
    have "inWindow l s e ?a"
      using b(2) by (simp add: inWindow_def)
    with found have "findOne (inWindow l s e) ((attendances st)[i := ?a]) = Some (i, ?a)"
      by (rule findOne_update)
    moreover have "count_list (studentsPresent ?a) xs = 1"
      using nx by (simp add: count_list_0_iff)
    ultimately show ?thesis
      using that [of ?a i] mark_found [OF w1 ne l found nx x] by (simp add: m1_def)
  qed
  have xin: "xs \<in> set (studentsPresent a)"
    using cnt count_list_0_iff [of "studentsPresent a" xs] by auto
  have m2: "m2 = (Json 400 (Message ''Student already marked present''), snd m1)"
    unfolding m2_def by (rule mark_conflict [OF w2 ne l f1 xin])
  have q: "q = (Json 200 (Attendance \<lparr>lecture = lecture a, date = date a,
                  studentsPresent = populate (students (snd m1)) (studentsPresent a)\<rparr>), snd m1)"
    unfolding q_def using m2 query_found [OF w3 l, of "snd m1" k a] f1 by simp
  show ?thesis
    using m1 f1 cnt m2 q studs
    by (intro exI [of _ k] exI [of _ a]) simp
qed

section \<open>The claims\<close>

text \<open>
  C1. The claim is that of two sequential marks of a student for a lecture and day the
  second fails with Conflict and that the query then shows the student once. The code
  departs from it when the request spells the student's id in upper case. The handler
  tests \<^verbatim>\<open>includes\<close> with the string of the request, which is not the stored lower-case
  id, so the second mark is not refused: it answers 200 and appends the student again,
  and the query that follows lists the student twice.
\<close>

theorem mark_twice_other_spelling:
  "markAttendance demoServer demoCtx demoStore
       (Some lectureB) (Some studentAUpper) (Some ''2024-01-15'') =
     (Json 200 (AttendanceMarked
        \<lparr>lecture = lectureB, date = 1705257000000, studentsPresent = [studentA]\<rparr>),
      demoStore\<lparr>attendances := attendances demoStore @
        [\<lparr>lecture = lectureB, date = 1705257000000, studentsPresent = [studentA]\<rparr>]\<rparr>)
   \<and> markAttendance demoServer demoCtx
       (demoStore\<lparr>attendances := attendances demoStore @
          [\<lparr>lecture = lectureB, date = 1705257000000, studentsPresent = [studentA]\<rparr>]\<rparr>)
       (Some lectureB) (Some studentAUpper) (Some ''2024-01-15'') =
     (Json 200 (AttendanceMarked
        \<lparr>lecture = lectureB, date = 1705257000000, studentsPresent = [studentA, studentA]\<rparr>),
      demoStore\<lparr>attendances := attendances demoStore @
        [\<lparr>lecture = lectureB, date = 1705257000000, studentsPresent = [studentA, studentA]\<rparr>]\<rparr>)
   \<and> markAttendance demoServer demoCtx
       (demoStore\<lparr>attendances := attendances demoStore @
          [\<lparr>lecture = lectureB, date = 1705257000000, studentsPresent = [studentA]\<rparr>]\<rparr>)
       (Some lectureB) (Some studentA) (Some ''2024-01-15'') =
     (Json 400 (Message ''Student already marked present''),
      demoStore\<lparr>attendances := attendances demoStore @
        [\<lparr>lecture = lectureB, date = 1705257000000, studentsPresent = [studentA]\<rparr>]\<rparr>)
   \<and> fst (getAttendance demoServer demoCtx
       (demoStore\<lparr>attendances := attendances demoStore @
          [\<lparr>lecture = lectureB, date = 1705257000000, studentsPresent = [studentA, studentA]\<rparr>]\<rparr>)
       lectureB (Some ''2024-01-15'')) =
     Json 200 (Attendance
        \<lparr>lecture = lectureB, date = 1705257000000,
         studentsPresent =
           [\<lparr>sid = studentA, rollNo = ''R1'', name = ''Asha'',
             photos = [''/uploads/students/a.png'', ''/uploads/students/b.png'']\<rparr>,
            \<lparr>sid = studentA, rollNo = ''R1'', name = ''Asha'',
             photos = [''/uploads/students/a.png'', ''/uploads/students/b.png'']\<rparr>]\<rparr>)"
  by (simp add: markAttendance_def getAttendance_def falsy_def Let_def demoWindow demoCast
        demoIds inWindow_def demoStore_def populate_def List.map_filter_simps)


text \<open>
  C2. In every store reached from one without attendance documents by any sequence of
  requests (marks and queries among them, with any headers, ids, dates and clocks), no
  two attendance documents have the same lecture and the same local calendar day.
  Whatever requests follow, every document stays at its place with its lecture and date
  and can only gain students. One request changes the number of documents only when it
  is a mark for a lecture and day that had no document, and then it appends exactly the
  document of that key with the marked student as its only member.
\<close>

theorem one_record_per_lecture_day:
  fixes srv st0 cls cl more
  defines "st \<equiv> run srv st0 cls"
  defines "st' \<equiv> run srv st0 (cls @ [cl])"
  assumes empty: "attendances st0 = []"
  shows "oneRecordPerDay (tzOffset srv) (attendances st)
       \<and> grows (attendances st) (attendances (run srv st0 (cls @ more)))
       \<and> (length (attendances st') \<noteq> length (attendances st) \<longrightarrow>
            (\<exists>c h ls xs d l x s e.
               cl = (c, h, MarkAttendance (Some ls) (Some xs) d)
             \<and> castObjectId srv ls = Some l \<and> castObjectId srv xs = Some x
             \<and> requestWindow srv c d = (Some s, Some e)
             \<and> (l, localDay (tzOffset srv) s) \<notin> dayKey (tzOffset srv) ` set (attendances st)
             \<and> attendances st' =
                 attendances st @ [\<lparr>lecture = l, date = s, studentsPresent = [x]\<rparr>]))"
proof (intro conjI impI)
  have "oneRecordPerDay (tzOffset srv) (attendances st0)"
    using empty by (simp add: oneRecordPerDay_def)
  then show "oneRecordPerDay (tzOffset srv) (attendances st)"
    unfolding st_def by (rule run_oneRecordPerDay)
next
  show "grows (attendances st) (attendances (run srv st0 (cls @ more)))"
    unfolding st_def run_append by (rule run_grows)
next
  assume len: "length (attendances st') \<noteq> length (attendances st)"
  have st': "st' = step srv st cl"
    by (simp add: st'_def st_def run_snoc)
  show "\<exists>c h ls xs d l x s e.
               cl = (c, h, MarkAttendance (Some ls) (Some xs) d)
             \<and> castObjectId srv ls = Some l \<and> castObjectId srv xs = Some x
             \<and> requestWindow srv c d = (Some s, Some e)
             \<and> (l, localDay (tzOffset srv) s) \<notin> dayKey (tzOffset srv) ` set (attendances st)
             \<and> attendances st' =
                 attendances st @ [\<lparr>lecture = l, date = s, studentsPresent = [x]\<rparr>]"
  proof (cases rule: step_cases [of srv st cl])
    case same
    with len st' show ?thesis by simp
  next
    case (add c h ls xs d l x s e i a)
    with len st' show ?thesis by simp
  next
    case (new c h ls xs d l x s e)
    from new_key_fresh [OF new(4) new(5)] new(1,2,3,4,6) st' show ?thesis
      by auto
  qed
qed

theorem one_record_per_lecture_day_witness:
  "oneRecordPerDay 19800000
     (attendances (run demoServer emptyStore
        [(demoCtx, demoAuth, MarkAttendance (Some lectureA) (Some studentA) None)]))
   \<and> grows
       (attendances (run demoServer emptyStore
          [(demoCtx, demoAuth, MarkAttendance (Some lectureA) (Some studentA) None)]))
       (attendances (run demoServer emptyStore
          [(demoCtx, demoAuth, MarkAttendance (Some lectureA) (Some studentA) None),
           (demoCtx, demoAuth, MarkAttendance (Some lectureB) (Some studentA) (Some ''2024-01-15''))]))
   \<and> attendances (run demoServer emptyStore
          [(demoCtx, demoAuth, MarkAttendance (Some lectureA) (Some studentA) None),
           (demoCtx, demoAuth, MarkAttendance (Some lectureB) (Some studentA) (Some ''2024-01-15''))])
       = [\<lparr>lecture = lectureA, date = 1705257000000, studentsPresent = [studentA]\<rparr>,
          \<lparr>lecture = lectureB, date = 1705257000000, studentsPresent = [studentA]\<rparr>]"
proof -
  let ?c1 = "(demoCtx, demoAuth, MarkAttendance (Some lectureA) (Some studentA) None)"
  let ?c2 = "(demoCtx, demoAuth, MarkAttendance (Some lectureB) (Some studentA) (Some ''2024-01-15''))"
  have empty: "attendances emptyStore = []"
    by (simp add: emptyStore_def)
  have r1: "attendances (run demoServer emptyStore [?c1]) =
              [\<lparr>lecture = lectureA, date = 1705257000000, studentsPresent = [studentA]\<rparr>]"
    by (simp add: run_def step_def handle_def demoAuth_ok markAttendance_def demoWindow
          demoCast demoIds falsy_def Let_def emptyStore_def)
  have r2: "attendances (run demoServer emptyStore [?c1, ?c2]) =
              [\<lparr>lecture = lectureA, date = 1705257000000, studentsPresent = [studentA]\<rparr>,
               \<lparr>lecture = lectureB, date = 1705257000000, studentsPresent = [studentA]\<rparr>]"
    by (simp add: run_def step_def handle_def demoAuth_ok markAttendance_def demoWindow
          demoCast demoIds falsy_def Let_def emptyStore_def inWindow_def)
  from one_record_per_lecture_day [OF empty, where srv = demoServer and cls = "[?c1]"
      and cl = ?c2 and more = "[?c2]"] r1 r2
  show ?thesis
    by (simp add: demoServer_def)
qed

text \<open>
  C3, as amended. Take a lecture id that is an \<^verbatim>\<open>ObjectId\<close> and a day, that of the date
  parameter when it is given and parses and that of the clock when it is missing or
  empty, whose window lies in the range of a \<^verbatim>\<open>Date\<close>. When the store has no attendance
  document of that lecture in the window, the query answers 200 with the synthetic
  record: the lecture is the requested id, the date is the start of the window, nobody
  is present; the store is as before. The start is local midnight of the day of the
  date, and the window ends 86399999 ms later.
\<close>

theorem query_without_record:
  fixes srv c st lectureId d t
  defines "start \<equiv> localDay (tzOffset srv) t * msPerDay - tzOffset srv"
  assumes day: "(falsy d \<and> t = now c) \<or> (\<exists>s. d = Some s \<and> s \<noteq> [] \<and> parseDate srv s = Some t)"
      and range: "\<bar>start\<bar> \<le> maxTime" "\<bar>start + 86399999\<bar> \<le> maxTime"
      and cast: "castObjectId srv lectureId = Some l"
      and none: "\<forall>r \<in> set (attendances st).
                   \<not> (lecture r = l \<and> start \<le> date r \<and> date r \<le> start + 86399999)"
  shows "getAttendance srv c st lectureId d =
           (Json 200 (Attendance \<lparr>lecture = lectureId, date = start, studentsPresent = []\<rparr>), st)
       \<and> localTime (tzOffset srv) start mod msPerDay = 0
       \<and> start \<le> t \<and> t < start + msPerDay"
proof -
  from day have valid: "requestDate (parseDate srv) (now c) d = Some t"
    by (auto simp: requestDate_def falsy_def split: option.splits)
  from requestWindow_start [OF valid] range
  have window: "requestWindow srv c d = (Some start, Some (start + 86399999))"
    by (simp add: start_def)
  from none have "findOne (inWindow l start (start + 86399999)) (attendances st) = None"
    by (simp add: findOne_None_iff inWindow_def)
  with window cast have "getAttendance srv c st lectureId d =
      (Json 200 (Attendance \<lparr>lecture = lectureId, date = start, studentsPresent = []\<rparr>), st)"
    by (rule query_none)
  then show ?thesis
    using local_midnight [where tz = "tzOffset srv" and t = t] by (simp add: start_def)
qed

theorem query_without_record_witness:
  "getAttendance demoServer nextDayCtx demoStore lectureB (Some ''2024-01-15'') =
     (Json 200 (Attendance \<lparr>lecture = lectureB, date = 1705257000000, studentsPresent = []\<rparr>),
      demoStore)
   \<and> getAttendance demoServer nextDayCtx demoStore lectureA None =
     (Json 200 (Attendance \<lparr>lecture = lectureA, date = 1705343400000, studentsPresent = []\<rparr>),
      demoStore)"
proof -
  have given: "(falsy (Some ''2024-01-15'') \<and> 1705276800000 = now nextDayCtx)
      \<or> (\<exists>s. Some ''2024-01-15'' = Some s \<and> s \<noteq> [] \<and> parseDate demoServer s = Some 1705276800000)"
    by (simp add: demoServer_def demoParse_def)
  have omitted: "(falsy None \<and> 1705400000000 = now nextDayCtx)
      \<or> (\<exists>s. None = Some s \<and> s \<noteq> [] \<and> parseDate demoServer s = Some 1705400000000)"
    by (simp add: falsy_def nextDayCtx_def)
  have tz: "tzOffset demoServer = 19800000"
    by (simp add: demoServer_def)
  have s1: "localDay 19800000 1705276800000 * msPerDay - 19800000 = 1705257000000"
    and s2: "localDay 19800000 1705400000000 * msPerDay - 19800000 = 1705343400000"
    by (simp_all add: localDay_def localTime_def msPerDay_def)
  have a: "getAttendance demoServer nextDayCtx demoStore lectureB (Some ''2024-01-15'') =
     (Json 200 (Attendance \<lparr>lecture = lectureB, date = 1705257000000, studentsPresent = []\<rparr>),
      demoStore)"
    using query_without_record [OF given, where st = demoStore and lectureId = lectureB and l = lectureB]
    by (simp add: tz s1 maxTime_def demoCast demoStore_def demoIds)
  have b: "getAttendance demoServer nextDayCtx demoStore lectureA None =
     (Json 200 (Attendance \<lparr>lecture = lectureA, date = 1705343400000, studentsPresent = []\<rparr>),
      demoStore)"
    using query_without_record [OF omitted, where st = demoStore and lectureId = lectureA and l = lectureA]
    by (simp add: tz s2 maxTime_def demoCast demoStore_def)
  show ?thesis
    by (intro conjI a b)
qed

text \<open>
  C3 as stated fails for a lecture id that is no \<^verbatim>\<open>ObjectId\<close> and for a day at the end
  of the range of a \<^verbatim>\<open>Date\<close>: the store has no attendance document at all, and the query
  ends in the cast error of the lookup instead of answering with the synthetic record.
\<close>

theorem query_cast_error_counterexample:
  "attendances emptyStore = []
   \<and> castObjectId demoServer ''abc'' = None
   \<and> getAttendance demoServer demoCtx emptyStore ''abc'' (Some ''2024-01-15'') =
       (CastError, emptyStore)
   \<and> requestWindow demoServer demoCtx (Some ''+275760-09-13T00:00:00.000Z'') =
       (Some 8639999980200000, None)
   \<and> getAttendance demoServer demoCtx emptyStore lectureB (Some ''+275760-09-13T00:00:00.000Z'') =
       (CastError, emptyStore)"
  by (simp add: getAttendance_def demoWindow demoCast) (simp add: emptyStore_def)

text \<open>
  C4, as amended. A date parameter that is missing or empty is treated as the current
  time. A non-empty date parameter that does not parse is not: the date is an Invalid
  Date, both bounds of the day window are invalid, and the query and the mark end in the
  cast error of the lookup, with no record returned and the store unchanged.
\<close>

theorem date_input_treatment:
  "(falsy d \<longrightarrow>
      requestDate (parseDate srv) (now c) d = Some (now c)
    \<and> getAttendance srv c st l d = getAttendance srv c st l None
    \<and> markAttendance srv c st lf sf d = markAttendance srv c st lf sf None)
   \<and> (d = Some s \<and> s \<noteq> [] \<and> parseDate srv s = None \<longrightarrow>
      requestDate (parseDate srv) (now c) d = None
    \<and> requestWindow srv c d = (None, None)
    \<and> getAttendance srv c st l d = (CastError, st)
    \<and> (\<not> falsy lf \<and> \<not> falsy sf \<longrightarrow> markAttendance srv c st lf sf d = (CastError, st)))"
proof (intro conjI impI)
  assume f: "falsy d"
  then show now: "requestDate (parseDate srv) (now c) d = Some (now c)"
    by (auto simp: falsy_def requestDate_def split: option.splits)
  then have eq: "requestWindow srv c d = requestWindow srv c None"
    by (simp add: requestWindow_def requestDate_def)
  show "getAttendance srv c st l d = getAttendance srv c st l None"
    by (simp only: getAttendance_def eq)
  show "markAttendance srv c st lf sf d = markAttendance srv c st lf sf None"
    by (simp only: markAttendance_def eq)
next
  assume u: "d = Some s \<and> s \<noteq> [] \<and> parseDate srv s = None"
  then show inv: "requestDate (parseDate srv) (now c) d = None"
    by (simp add: requestDate_def)
  then show w: "requestWindow srv c d = (None, None)"
    by (simp add: requestWindow_def dayWindow_None)
  then show "getAttendance srv c st l d = (CastError, st)"
    by (simp add: getAttendance_def)
  assume "\<not> falsy lf \<and> \<not> falsy sf"
  with w show "markAttendance srv c st lf sf d = (CastError, st)"
    by (auto simp: markAttendance_def falsy_def split: option.splits)
qed

theorem date_input_treatment_witness:
  "getAttendance demoServer demoCtx demoStore lectureA (Some []) =
     getAttendance demoServer demoCtx demoStore lectureA None
   \<and> requestWindow demoServer demoCtx (Some ''abc'') = (None, None)
   \<and> getAttendance demoServer demoCtx demoStore lectureA (Some ''abc'') = (CastError, demoStore)
   \<and> markAttendance demoServer demoCtx demoStore (Some lectureA) (Some studentA) (Some ''abc'') =
       (CastError, demoStore)"
proof -
  have a: "falsy (Some [])"
    by (simp add: falsy_def)
  have b: "Some ''abc'' = Some ''abc'' \<and> ''abc'' \<noteq> [] \<and> parseDate demoServer ''abc'' = None"
    by (simp add: demoServer_def demoParse_def)
  have f: "\<not> falsy (Some lectureA) \<and> \<not> falsy (Some studentA)"
    by (simp add: falsy_def demoIds)
  note empty = mp [OF conjunct1 [OF date_input_treatment] a]
  note bad = mp [OF conjunct2 [OF date_input_treatment] b]
  have 1: "getAttendance demoServer demoCtx demoStore lectureA (Some []) =
     getAttendance demoServer demoCtx demoStore lectureA None"
    by (rule conjunct1 [OF conjunct2 [OF empty]])
  have 2: "requestWindow demoServer demoCtx (Some ''abc'') = (None, None)"
    by (rule conjunct1 [OF conjunct2 [OF bad]])
  have 3: "getAttendance demoServer demoCtx demoStore lectureA (Some ''abc'') = (CastError, demoStore)"
    by (rule conjunct1 [OF conjunct2 [OF conjunct2 [OF bad]]])
  have 4: "markAttendance demoServer demoCtx demoStore (Some lectureA) (Some studentA) (Some ''abc'') =
       (CastError, demoStore)"
    by (rule mp [OF conjunct2 [OF conjunct2 [OF conjunct2 [OF bad]]] f])
  show ?thesis
    by (intro conjI 1 2 3 4)
qed

text \<open>
  C4 as stated fails: with the unparseable date \<^verbatim>\<open>abc\<close> the window is invalid and both
  operations end in the cast error, while with the date omitted the window is the
  current day, the query answers with a record and the mark stores one.
\<close>

theorem unparseable_date_counterexample:
  "parseDate demoServer ''abc'' = None
   \<and> requestWindow demoServer demoCtx (Some ''abc'') = (None, None)
   \<and> requestWindow demoServer demoCtx None = (Some 1705257000000, Some 1705343399999)
   \<and> getAttendance demoServer demoCtx demoStore lectureB (Some ''abc'') = (CastError, demoStore)
   \<and> getAttendance demoServer demoCtx demoStore lectureB None =
       (Json 200 (Attendance \<lparr>lecture = lectureB, date = 1705257000000, studentsPresent = []\<rparr>),
        demoStore)
   \<and> markAttendance demoServer demoCtx demoStore (Some lectureB) (Some studentA) (Some ''abc'') =
       (CastError, demoStore)
   \<and> markAttendance demoServer demoCtx demoStore (Some lectureB) (Some studentA) None =
       (Json 200 (AttendanceMarked
          \<lparr>lecture = lectureB, date = 1705257000000, studentsPresent = [studentA]\<rparr>),
        demoStore\<lparr>attendances := attendances demoStore
           @ [\<lparr>lecture = lectureB, date = 1705257000000, studentsPresent = [studentA]\<rparr>]\<rparr>)"
  by (simp add: demoWindow demoCast demoIds falsy_def getAttendance_def markAttendance_def Let_def)
     (simp add: demoStore_def demoServer_def demoParse_def inWindow_def demoIds)

text \<open>
  C5. Listing the lectures of a store without lectures inserts the five literal lectures
  and answers with them; listing again, on the store that results, answers with the same
  five and leaves that store as it is. A store that has lectures is answered from and
  not changed, so seeding happens only when the collection is found empty.
\<close>

theorem listLectures_seeds_once:
  "(lectures st = [] \<longrightarrow>
       listLectures st = (Json 200 (Lectures seedLectures), st\<lparr>lectures := seedLectures\<rparr>)
     \<and> listLectures (snd (listLectures st)) =
         (Json 200 (Lectures seedLectures), st\<lparr>lectures := seedLectures\<rparr>))
   \<and> (lectures st \<noteq> [] \<longrightarrow> listLectures st = (Json 200 (Lectures (lectures st)), st))
   \<and> map (\<lambda>l. (lectureName l, roomNo l, lectureSection l)) seedLectures =
       [(''Discrete Mathematics'', ''CS2005'', ''2FA''),
        (''Computer Organisation'', ''BSCS100'', ''2AA''),
        (''DBMS'', ''BCO1005'', ''2CA''),
        (''English'', ''BELH 0081'', ''2XX''),
        (''HTML'', ''PCPH0001'', ''2XN'')]"
proof (intro conjI impI)
  assume e: "lectures st = []"
  then show first: "listLectures st = (Json 200 (Lectures seedLectures), st\<lparr>lectures := seedLectures\<rparr>)"
    by (simp add: listLectures_def)
  have "lectures (st\<lparr>lectures := seedLectures\<rparr>) \<noteq> []"
    by (simp add: seedLectures_def)
  then show "listLectures (snd (listLectures st)) =
               (Json 200 (Lectures seedLectures), st\<lparr>lectures := seedLectures\<rparr>)"
    unfolding first by (simp add: listLectures_def)
next
  assume "lectures st \<noteq> []"
  then show "listLectures st = (Json 200 (Lectures (lectures st)), st)"
    by (simp add: listLectures_def)
next
  show "map (\<lambda>l. (lectureName l, roomNo l, lectureSection l)) seedLectures =
       [(''Discrete Mathematics'', ''CS2005'', ''2FA''),
        (''Computer Organisation'', ''BSCS100'', ''2AA''),
        (''DBMS'', ''BCO1005'', ''2CA''),
        (''English'', ''BELH 0081'', ''2XX''),
        (''HTML'', ''PCPH0001'', ''2XN'')]"
    by (simp add: seedLectures_def)
qed

theorem listLectures_seeds_once_witness:
  "fst (listLectures emptyStore) = Json 200 (Lectures seedLectures)
   \<and> lectures (snd (listLectures emptyStore)) = seedLectures
   \<and> listLectures (snd (listLectures emptyStore)) =
       (Json 200 (Lectures seedLectures), snd (listLectures emptyStore))
   \<and> length (lectures (snd (listLectures (snd (listLectures emptyStore))))) = 5"
proof -
  have e: "lectures emptyStore = []"
    by (simp add: emptyStore_def)
  note both = mp [OF conjunct1 [OF listLectures_seeds_once [of emptyStore]] e]
  have a: "listLectures emptyStore = (Json 200 (Lectures seedLectures), emptyStore\<lparr>lectures := seedLectures\<rparr>)"
    and b: "listLectures (snd (listLectures emptyStore)) =
              (Json 200 (Lectures seedLectures), emptyStore\<lparr>lectures := seedLectures\<rparr>)"
    by (rule conjunct1 [OF both], rule conjunct2 [OF both])
  have "length seedLectures = 5"
    by (simp add: seedLectures_def)
  then show ?thesis
    unfolding b unfolding a by simp
qed

text \<open>
  C6, as amended. For every route behind the gate (all but login): a request without a
  token (no \<^verbatim>\<open>Authorization\<close> header, or a header with no second piece) is answered
  401; a request whose token fails verification, be it malformed, wrongly signed or
  expired, is answered 403. In each case the answer is the same for every store and the
  store is returned as it was: no handler runs.
\<close>

theorem gate_refusals:
  assumes "gated req"
  shows "bearerToken None = None
       \<and> (bearerToken authHeader = None \<longrightarrow>
            handle srv c st authHeader req = (SendStatus 401, st))
       \<and> (\<forall>token. bearerToken authHeader = Some token
              \<and> jwtVerify srv token (now c) \<in> {JwtMalformed, JwtInvalidSignature, JwtExpired} \<longrightarrow>
            handle srv c st authHeader req = (SendStatus 403, st))"
  using assms
  by (cases req) (auto simp: gated_def handle_def authenticateToken_def bearerToken_def)

theorem gate_refusals_witness:
  "handle demoServer demoCtx demoStore None ListStudents = (SendStatus 401, demoStore)
   \<and> handle demoServer demoCtx demoStore (Some ''Bearer'') ListLectures = (SendStatus 401, demoStore)
   \<and> handle demoServer lateCtx demoStore (Some ''Bearer akash.signed'')
         (MarkAttendance (Some lectureA) (Some studentA) None) = (SendStatus 403, demoStore)"
proof -
  have g: "gated ListStudents" "gated ListLectures" "gated (MarkAttendance (Some lectureA) (Some studentA) None)"
    by (simp_all add: gated_def)
  have n: "bearerToken None = None" "bearerToken (Some ''Bearer'') = None"
    by (simp_all add: bearerToken_def)
  have x: "bearerToken (Some ''Bearer akash.signed'') = Some ''akash.signed''
           \<and> jwtVerify demoServer ''akash.signed'' (now lateCtx)
               \<in> {JwtMalformed, JwtInvalidSignature, JwtExpired}"
    by (simp add: bearerToken_def demoServer_def demoVerify_def lateCtx_def)
  have a: "handle demoServer demoCtx demoStore None ListStudents = (SendStatus 401, demoStore)"
    by (rule mp [OF conjunct1 [OF conjunct2 [OF gate_refusals [OF g(1)]]] n(1)])
  have b: "handle demoServer demoCtx demoStore (Some ''Bearer'') ListLectures = (SendStatus 401, demoStore)"
    by (rule mp [OF conjunct1 [OF conjunct2 [OF gate_refusals [OF g(2)]]] n(2)])
  have c: "handle demoServer lateCtx demoStore (Some ''Bearer akash.signed'')
         (MarkAttendance (Some lectureA) (Some studentA) None) = (SendStatus 403, demoStore)"
    by (rule mp [OF spec [OF conjunct2 [OF conjunct2 [OF gate_refusals [OF g(3)]]]] x])
  from a b c show ?thesis
    by (intro conjI)
qed

text \<open>
  C6 as stated fails: a malformed token and a token with an invalid signature are
  answered 403 (the spec's Forbidden), not 401 (Unauthenticated).
\<close>

theorem invalid_token_counterexample:
  "jwtVerify demoServer ''garbage'' (now demoCtx) = JwtMalformed
   \<and> handle demoServer demoCtx demoStore (Some ''Bearer garbage'') ListStudents
       = (SendStatus 403, demoStore)
   \<and> jwtVerify demoServer ''akash.forged'' (now demoCtx) = JwtInvalidSignature
   \<and> handle demoServer demoCtx demoStore (Some ''Bearer akash.forged'') ListStudents
       = (SendStatus 403, demoStore)
   \<and> SendStatus 403 \<noteq> SendStatus 401"
  by (simp add: handle_def authenticateToken_def bearerToken_def demoServer_def demoVerify_def)

text \<open>
  C7. The claim is that a registration with a number of photos other than two fails
  with InvalidInput and leaves the student store unchanged. The code departs from it
  for three photos: the handler's own check, which answers one photo with 400 "Two
  photos required", is never reached, because the upload middleware in front of it
  refuses the third file and the request ends in the middleware's error. The student
  store is unchanged, as the claim says.
\<close>

theorem register_three_photos:
  "registerStudent demoCtx demoStore (Some ''R2'') (Some ''Ravi'') [''p1.png'', ''p2.png'', ''p3.png'']
     = (UploadError, demoStore)
   \<and> handle demoServer demoCtx demoStore demoAuth
        (RegisterStudent (Some ''R2'') (Some ''Ravi'') [''p1.png'', ''p2.png'', ''p3.png''])
     = (UploadError, demoStore)
   \<and> registerStudent demoCtx demoStore (Some ''R2'') (Some ''Ravi'') [''p1.png'']
     = (Json 400 (Message ''Two photos required''), demoStore)"
  by (simp add: handle_def demoAuth_ok registerStudent_def falsy_def)

text \<open>
  C8. Changing the password of a user name that no user document has answers 404 "User
  not found" (NotFound) and changes nothing. When the user is found and the current
  password does not verify against the stored hash, the answer is 400 "Current password
  incorrect" (InvalidCredential) and the store, the hash included, is unchanged.
  Otherwise the answer is 200 and the store differs exactly in that user's document,
  whose hash is now \<^verbatim>\<open>bcrypt.hash\<close> of the new password.
\<close>

theorem changePassword_outcomes:
  "(uname \<notin> username ` set (users st) \<longrightarrow>
      changePassword srv c st uname currentPassword newPassword =
        (Json 404 (Message ''User not found''), st))
   \<and> (\<forall>i u. findOne (\<lambda>u. username u = uname) (users st) = Some (i, u)
          \<and> \<not> bcryptCompare srv currentPassword (passwordHash u) \<longrightarrow>
      changePassword srv c st uname currentPassword newPassword =
        (Json 400 (Message ''Current password incorrect''), st))
   \<and> (\<forall>i u. findOne (\<lambda>u. username u = uname) (users st) = Some (i, u)
          \<and> bcryptCompare srv currentPassword (passwordHash u) \<longrightarrow>
      changePassword srv c st uname currentPassword newPassword =
        (Json 200 (Message ''Password changed successfully''),
         st\<lparr>users := (users st)[i := u\<lparr>passwordHash := bcryptHash srv (salt c) newPassword\<rparr>]\<rparr>)
      \<and> i < length (users st) \<and> users st ! i = u \<and> username u = uname)"
proof (intro conjI allI impI)
  assume "uname \<notin> username ` set (users st)"
  then have "findOne (\<lambda>u. username u = uname) (users st) = None"
    by (auto simp: findOne_None_iff)
  then show "changePassword srv c st uname currentPassword newPassword =
        (Json 404 (Message ''User not found''), st)"
    by (simp add: changePassword_def)
next
  fix i u
  assume "findOne (\<lambda>u. username u = uname) (users st) = Some (i, u)
          \<and> \<not> bcryptCompare srv currentPassword (passwordHash u)"
  then show "changePassword srv c st uname currentPassword newPassword =
        (Json 400 (Message ''Current password incorrect''), st)"
    by (simp add: changePassword_def)
next
  fix i u
  assume a: "findOne (\<lambda>u. username u = uname) (users st) = Some (i, u)
          \<and> bcryptCompare srv currentPassword (passwordHash u)"
  then show "changePassword srv c st uname currentPassword newPassword =
        (Json 200 (Message ''Password changed successfully''),
         st\<lparr>users := (users st)[i := u\<lparr>passwordHash := bcryptHash srv (salt c) newPassword\<rparr>]\<rparr>)"
    by (simp add: changePassword_def)
  from a findOne_SomeD [of "\<lambda>u. username u = uname" "users st" i u]
  show "i < length (users st)" "users st ! i = u" "username u = uname"
    by simp_all
qed

theorem changePassword_outcomes_witness:
  "changePassword demoServer demoCtx demoStore ''Nobody'' ''12345'' ''abc'' =
     (Json 404 (Message ''User not found''), demoStore)
   \<and> changePassword demoServer demoCtx demoStore ''Akash'' ''wrong'' ''abc'' =
     (Json 400 (Message ''Current password incorrect''), demoStore)
   \<and> changePassword demoServer demoCtx demoStore ''Akash'' ''12345'' ''abc'' =
     (Json 200 (Message ''Password changed successfully''),
      demoStore\<lparr>users := [\<lparr>username = ''Akash'', passwordHash = ''cba''\<rparr>]\<rparr>)"
proof -
  let ?u = "\<lparr>username = ''Akash'', passwordHash = ''54321''\<rparr>"
  have absent: "''Nobody'' \<notin> username ` set (users demoStore)"
    by (simp add: demoStore_def)
  have found: "findOne (\<lambda>u. username u = ''Akash'') (users demoStore) = Some (0, ?u)"
    by (simp add: demoStore_def)
  have wrong: "\<not> bcryptCompare demoServer ''wrong'' (passwordHash ?u)"
    and right: "bcryptCompare demoServer ''12345'' (passwordHash ?u)"
    by (simp_all add: demoServer_def demoCompare_def)
  have upd: "(users demoStore)[0 := ?u\<lparr>passwordHash := bcryptHash demoServer (salt demoCtx) ''abc''\<rparr>]
               = [\<lparr>username = ''Akash'', passwordHash = ''cba''\<rparr>]"
    by (simp add: demoStore_def demoServer_def demoHash_def)
  have a: "changePassword demoServer demoCtx demoStore ''Nobody'' ''12345'' ''abc'' =
     (Json 404 (Message ''User not found''), demoStore)"
    by (rule mp [OF conjunct1 [OF changePassword_outcomes] absent])
  have b: "changePassword demoServer demoCtx demoStore ''Akash'' ''wrong'' ''abc'' =
     (Json 400 (Message ''Current password incorrect''), demoStore)"
    by (rule mp [OF spec [OF spec [OF conjunct1 [OF conjunct2 [OF changePassword_outcomes]]]]
          conjI [OF found wrong]])
  have c: "changePassword demoServer demoCtx demoStore ''Akash'' ''12345'' ''abc'' =
     (Json 200 (Message ''Password changed successfully''),
      demoStore\<lparr>users := (users demoStore)[0 := ?u\<lparr>passwordHash := bcryptHash demoServer (salt demoCtx) ''abc''\<rparr>]\<rparr>)"
    by (rule conjunct1 [OF mp [OF spec [OF spec [OF conjunct2 [OF conjunct2 [OF changePassword_outcomes]]]]
          conjI [OF found right]]])
  from a b c [unfolded upd] show ?thesis
    by (intro conjI)
qed

text \<open>
  C9. A query never changes the store, whatever the lecture, the date parameter and the
  header: the handler returns the store it was given, also when it answers with the
  synthetic record, which is therefore not persisted.
\<close>

theorem query_leaves_store:
  "snd (getAttendance srv c st lectureId d) = st
   \<and> snd (handle srv c st authHeader (GetAttendance lectureId d)) = st"
  by (auto simp: getAttendance_def handle_def split: option.splits prod.splits sum.splits)

theorem query_leaves_store_witness:
  "getAttendance demoServer demoCtx demoStore lectureB None =
     (Json 200 (Attendance \<lparr>lecture = lectureB, date = 1705257000000, studentsPresent = []\<rparr>), demoStore)
   \<and> snd (handle demoServer demoCtx demoStore demoAuth (GetAttendance lectureB None)) = demoStore"
proof -
  have "fst (getAttendance demoServer demoCtx demoStore lectureB None) =
          Json 200 (Attendance \<lparr>lecture = lectureB, date = 1705257000000, studentsPresent = []\<rparr>)"
    by (simp add: getAttendance_def demoWindow demoCast) (simp add: demoStore_def inWindow_def demoIds)
  with query_leaves_store [of demoServer demoCtx demoStore lectureB None demoAuth] show ?thesis
    by (simp add: prod_eq_iff)
qed

text \<open>
  C10. When a mark finds the attendance document of its lecture and day and the student
  is not yet in it, the store afterwards has the same number of attendance documents;
  the document found keeps its lecture and its date and has the student appended to
  \<open>studentsPresent\<close>; every other attendance document, and every other collection,
  is as before.
\<close>

theorem mark_existing_record_frame:
  fixes srv c st ls xs d
  defines "st' \<equiv> snd (markAttendance srv c st (Some ls) (Some xs) d)"
  assumes window: "requestWindow srv c d = (Some s, Some e)"
      and ids: "ls \<noteq> []" "xs \<noteq> []" "castObjectId srv ls = Some l" "castObjectId srv xs = Some x"
      and found: "findOne (inWindow l s e) (attendances st) = Some (i, a)"
      and new: "xs \<notin> set (studentsPresent a)"
  shows "length (attendances st') = length (attendances st)
       \<and> lecture (attendances st' ! i) = lecture a
       \<and> date (attendances st' ! i) = date a
       \<and> studentsPresent (attendances st' ! i) = studentsPresent a @ [x]
       \<and> (\<forall>j < length (attendances st). j \<noteq> i \<longrightarrow> attendances st' ! j = attendances st ! j)
       \<and> users st' = users st \<and> students st' = students st \<and> lectures st' = lectures st"
proof -
  from findOne_SomeD [OF found] have i: "i < length (attendances st)"
    by simp
  have "st' = st\<lparr>attendances := (attendances st)[i := a\<lparr>studentsPresent := studentsPresent a @ [x]\<rparr>]\<rparr>"
    unfolding st'_def by (simp add: mark_found [OF window ids(1,2,3) found new ids(4)])
  with i show ?thesis
    by simp
qed

theorem mark_existing_record_frame_witness:
  "attendances (snd (markAttendance demoServer demoCtx demoStore (Some lectureA) (Some studentA) None)) =
     [\<lparr>lecture = lectureA, date = 1705257000000, studentsPresent = [studentB, studentA]\<rparr>]
   \<and> students (snd (markAttendance demoServer demoCtx demoStore (Some lectureA) (Some studentA) None)) =
       students demoStore"
proof -
  let ?a = "\<lparr>lecture = lectureA, date = 1705257000000, studentsPresent = [studentB]\<rparr> :: oid attendance_doc"
  have window: "requestWindow demoServer demoCtx None = (Some 1705257000000, Some 1705343399999)"
    by (rule demoWindow)
  have found: "findOne (inWindow lectureA 1705257000000 1705343399999) (attendances demoStore) = Some (0, ?a)"
    by (simp add: demoStore_def inWindow_def)
  have new: "studentA \<notin> set (studentsPresent ?a)"
    by (simp add: demoIds)
  from mark_existing_record_frame [OF window demoIds(8) demoIds(5) demoCast(1) demoCast(3) found new]
  show ?thesis
    by (cases "attendances (snd (markAttendance demoServer demoCtx demoStore
          (Some lectureA) (Some studentA) None))")
       (auto simp: attendance_doc.equality demoStore_def)
qed

end
